theory Spec2Isabelle
  imports Complex_Main "HOL-Library.AList" "HOL-Library.Multiset"
begin

section \<open>Python values used by the services\<close>

text \<open>
  A Python \<open>str\<close> is a sequence of Unicode code points: \<open>len\<close>, slicing and
  \<open>rfind\<close> count code points, and the bullet marker U+2022 is one character.
  A string is therefore a list of code points; \<open>py\<close> embeds an ASCII literal.
\<close>

type_synonym pystr = "nat list"

definition py :: "string \<Rightarrow> pystr" where
  "py s = map of_char s"

text \<open>
  \<open>str.isspace\<close>: the 29 code points for which CPython answers true.
\<close>

definition isspace :: "nat \<Rightarrow> bool" where
  "isspace c \<longleftrightarrow>
     (9 \<le> c \<and> c \<le> 13) \<or> (28 \<le> c \<and> c \<le> 32) \<or> c = 133 \<or> c = 160 \<or> c = 5760 \<or>
     (8192 \<le> c \<and> c \<le> 8202) \<or> c = 8232 \<or> c = 8233 \<or> c = 8239 \<or> c = 8287 \<or> c = 12288"

definition lstrip :: "pystr \<Rightarrow> pystr" where
  "lstrip s = dropWhile isspace s"

definition rstrip :: "pystr \<Rightarrow> pystr" where
  "rstrip s = rev (dropWhile isspace (rev s))"

definition strip :: "pystr \<Rightarrow> pystr" where
  "strip s = rstrip (lstrip s)"

text \<open>
  \<open>s[a:b]\<close>: a negative bound counts from the end, both bounds are clamped to
  the string, and an empty range gives the empty string.
\<close>

definition slice :: "'a list \<Rightarrow> int \<Rightarrow> int \<Rightarrow> 'a list" where
  "slice s a b =
     (let n = int (length s);
          a' = (if a < 0 then max 0 (a + n) else min a n);
          b' = (if b < 0 then max 0 (b + n) else min b n)
      in take (nat (b' - a')) (drop (nat a') s))"

text \<open>
  \<open>s.rfind(sub, start)\<close>: the highest index \<open>i \<ge> start\<close> at which \<open>sub\<close>
  occurs in \<open>s\<close>, or \<open>-1\<close>.
\<close>

definition occurs_at :: "pystr \<Rightarrow> pystr \<Rightarrow> nat \<Rightarrow> bool" where
  "occurs_at s sub i \<longleftrightarrow> take (length sub) (drop i s) = sub"

definition rfind :: "pystr \<Rightarrow> pystr \<Rightarrow> int \<Rightarrow> int" where
  "rfind s sub start =
     (let n = int (length s);
          st = (if start < 0 then max 0 (start + n) else start)
      in case filter (occurs_at s sub) (rev [nat st ..< Suc (length s)]) of
           [] \<Rightarrow> - 1
         | i # _ \<Rightarrow> int i)"

datatype pyval =
    PNone
  | PBool bool
  | PInt int
  | PFloat real
  | PStr pystr
  | PList "pyval list"
  | PDict "(pystr \<times> pyval) list"

text \<open>
  A \<open>dict\<close> with string keys, in insertion order: \<open>d[k] = v\<close> is
  \<open>AList.update k v d\<close>, which replaces in place or appends at the end.
\<close>

type_synonym pydict = "(pystr \<times> pyval) list"

definition dict_update :: "pydict \<Rightarrow> pydict \<Rightarrow> pydict" where
  "dict_update d other = fold (\<lambda>(k, v) acc. AList.update k v acc) other d"

section \<open>TextChunker\<close>

text \<open>
  \<open>int(self.chunk_size * 0.8)\<close> truncates toward zero; the double product is
  exact enough for this to be \<open>4 * chunk_size / 5\<close> truncated whenever
  \<open>|chunk_size| < 2^50\<close>.
\<close>

definition int_08 :: "int \<Rightarrow> int" where
  "int_08 cs = (if 0 \<le> cs then (4 * cs) div 5 else - ((4 * (- cs)) div 5))"

text \<open>\<open>['\n\n', '\n', '. ', ' ', '']\<close>, as code points.\<close>

definition boundary_chars :: "pystr list" where
  "boundary_chars = [[10, 10], [10], [46, 32], [32], []]"

fun find_boundary :: "pystr \<Rightarrow> int \<Rightarrow> pystr \<Rightarrow> int \<Rightarrow> pystr list \<Rightarrow> (int \<times> pystr) option" where
  "find_boundary text start chunk_text from [] = None"
| "find_boundary text start chunk_text from (boundary # rest) =
     (if boundary \<noteq> [] then
        (let last_boundary = rfind chunk_text boundary from in
         if last_boundary \<noteq> - 1 then
           (let end = start + last_boundary + int (length boundary)
            in Some (end, slice text start end))
         else find_boundary text start chunk_text from rest)
      else find_boundary text start chunk_text from rest)"

text \<open>One pass of the loop body up to the chunk's final \<open>end\<close> and text.\<close>

definition window :: "int \<Rightarrow> pystr \<Rightarrow> int \<Rightarrow> int \<times> pystr" where
  "window chunk_size text start =
     (let end = start + chunk_size;
          chunk_text = slice text start end
      in if end < int (length text) then
           (let boundary_search_start = max (start + int_08 chunk_size) start
            in case find_boundary text start chunk_text (boundary_search_start - start) boundary_chars of
                 Some r \<Rightarrow> r
               | None \<Rightarrow> (end, chunk_text))
         else (end, chunk_text))"

text \<open>\<open>source_file or "unknown"\<close>.\<close>

definition source_or_unknown :: "pystr option \<Rightarrow> pystr" where
  "source_or_unknown source_file =
     (case source_file of None \<Rightarrow> py ''unknown'' | Some s \<Rightarrow> (if s = [] then py ''unknown'' else s))"

text \<open>\<open>if metadata: chunk_data.update(metadata)\<close>.\<close>

definition add_metadata :: "pydict option \<Rightarrow> pydict \<Rightarrow> pydict" where
  "add_metadata metadata chunk_data =
     (case metadata of None \<Rightarrow> chunk_data
      | Some m \<Rightarrow> (if m = [] then chunk_data else dict_update chunk_data m))"

definition chunk_data :: "pystr \<Rightarrow> int \<Rightarrow> pystr option \<Rightarrow> int \<Rightarrow> int \<Rightarrow> pydict option \<Rightarrow> pydict" where
  "chunk_data chunk_text chunk_index source_file start end metadata =
     add_metadata metadata
       [(py ''text'', PStr (strip chunk_text)),
        (py ''chunk_index'', PInt chunk_index),
        (py ''source_file'', PStr (source_or_unknown source_file)),
        (py ''start_char'', PInt start),
        (py ''end_char'', PInt end)]"

text \<open>
  The \<open>while start < len(text)\<close> loop. It need not return, so it is a partial
  function into \<open>option\<close>: \<open>None\<close> is the loop that runs forever.
\<close>

partial_function (option) chunk_loop ::
  "int \<Rightarrow> int \<Rightarrow> pystr \<Rightarrow> pystr option \<Rightarrow> pydict option \<Rightarrow> int \<Rightarrow> int \<Rightarrow> pydict list \<Rightarrow> pydict list option"
where
  "chunk_loop chunk_size chunk_overlap text source_file metadata start chunk_index chunks =
     (if start < int (length text) then
        (case window chunk_size text start of
           (end, chunk_text) \<Rightarrow>
             (let chunks' = chunks @ [chunk_data chunk_text chunk_index source_file start end metadata];
                  start' = end - chunk_overlap
              in if start' \<ge> int (length text) then Some chunks'
                 else chunk_loop chunk_size chunk_overlap text source_file metadata start' (chunk_index + 1) chunks'))
      else Some chunks)"

declare chunk_loop.simps [code]

definition set_total_chunks :: "pydict list \<Rightarrow> pydict list" where
  "set_total_chunks chunks =
     map (AList.update (py ''total_chunks'') (PInt (int (length chunks)))) chunks"

definition chunk_text :: "int \<Rightarrow> int \<Rightarrow> pystr \<Rightarrow> pystr option \<Rightarrow> pydict option \<Rightarrow> pydict list option" where
  "chunk_text chunk_size chunk_overlap text0 source_file metadata =
     (if text0 = [] \<or> strip text0 = [] then Some []
      else
        (let text = strip text0 in
         if int (length text) \<le> chunk_size then
           Some [add_metadata metadata
                   [(py ''text'', PStr text),
                    (py ''chunk_index'', PInt 0),
                    (py ''source_file'', PStr (source_or_unknown source_file)),
                    (py ''total_chunks'', PInt 1)]]
         else map_option set_total_chunks
                (chunk_loop chunk_size chunk_overlap text source_file metadata 0 0 [])))"

subsection \<open>Reading a chunk's recorded window\<close>

definition start_char :: "pydict \<Rightarrow> pyval option" where
  "start_char c = map_of c (py ''start_char'')"

definition end_char :: "pydict \<Rightarrow> pyval option" where
  "end_char c = map_of c (py ''end_char'')"

definition chunk_text_of :: "pydict \<Rightarrow> pyval option" where
  "chunk_text_of c = map_of c (py ''text'')"

text \<open>
  The caller's metadata is merged over the chunk's own keys, so it can overwrite the
  recorded window; \<open>keeps_window_keys\<close> says that it does not.
\<close>

definition keeps_window_keys :: "pydict option \<Rightarrow> bool" where
  "keeps_window_keys metadata \<longleftrightarrow>
     (case metadata of None \<Rightarrow> True
      | Some m \<Rightarrow> list_all (\<lambda>k. k \<notin> set (map fst m)) [py ''text'', py ''start_char'', py ''end_char''])"

text \<open>
  A chunk records the window \<open>[s, e)\<close> of \<open>tx\<close>: its offsets are integers with
  \<open>0 \<le> s < e\<close> and its text is that slice, stripped.
\<close>

definition records_window :: "pystr \<Rightarrow> pydict \<Rightarrow> bool" where
  "records_window tx c \<longleftrightarrow>
     (case (start_char c, end_char c) of
        (Some (PInt s), Some (PInt e)) \<Rightarrow>
          0 \<le> s \<and> s < e \<and> chunk_text_of c = Some (PStr (strip (slice tx s e)))
      | _ \<Rightarrow> False)"

text \<open>Each chunk starts \<open>ov\<close> characters before the end of the one before it.\<close>

fun consecutive :: "int \<Rightarrow> pydict list \<Rightarrow> bool" where
  "consecutive ov (a # b # rest) \<longleftrightarrow>
     (case end_char a of
        Some (PInt e) \<Rightarrow> start_char b = Some (PInt (e - ov))
      | _ \<Rightarrow> False) \<and> consecutive ov (b # rest)"
| "consecutive ov [a] \<longleftrightarrow> True"
| "consecutive ov [] \<longleftrightarrow> True"

text \<open>The chunks the loop appends when it is entered at \<open>start\<close> and returns.\<close>

inductive chunks_from ::
  "int \<Rightarrow> int \<Rightarrow> pystr \<Rightarrow> pystr option \<Rightarrow> pydict option \<Rightarrow> int \<Rightarrow> int \<Rightarrow> pydict list \<Rightarrow> bool"
  for cs ov tx sf md
where
  final: "window cs tx start = (e, c) \<Longrightarrow> int (length tx) \<le> e - ov \<Longrightarrow>
     chunks_from cs ov tx sf md start idx [chunk_data c idx sf start e md]"
| more: "window cs tx start = (e, c) \<Longrightarrow> e - ov < int (length tx) \<Longrightarrow>
     chunks_from cs ov tx sf md (e - ov) (idx + 1) rest \<Longrightarrow>
     chunks_from cs ov tx sf md start idx (chunk_data c idx sf start e md # rest)"

text \<open>A text of 20 characters with one space, at index 8.\<close>

definition sample_text :: pystr where
  "sample_text = py ''aaaaaaaa bbbbbbbbbbb''"

section \<open>Python builtins and errors\<close>

text \<open>
  Every \<open>raise\<close> of the services is a value of \<open>error\<close>. The two \<open>ValueError\<close>s
  of \<open>add_documents\<close> are told apart by their messages, so they are two
  constructors here; an exception of an external collaborator carries its \<open>str(e)\<close>.
\<close>

datatype error =
    CountMismatch nat nat
  | InhomogeneousShape
  | ShapeIndexError
  | DimensionMismatch nat nat
  | QueryDimensionMismatch nat nat
  | IntConversionError pyval
  | KeyError pystr
  | AttributeError
  | FaissAssertionError
  | EmbedderError pystr

text \<open>
  Library tables the code relies on and that are not part of it: \<open>str(v)\<close> for a
  value that is not a string, \<open>int(s)\<close> for a string, and the Unicode tables behind
  \<open>str.lower\<close> and \<open>str.isdigit\<close>. They are parameters of the model.
\<close>

record pylib =
  str_other :: "pyval \<Rightarrow> pystr"
  int_of_str :: "pystr \<Rightarrow> int option"
  lower_char :: "nat \<Rightarrow> pystr"
  isdigit :: "nat \<Rightarrow> bool"

definition py_str :: "pylib \<Rightarrow> pyval \<Rightarrow> pystr" where
  "py_str L v = (case v of PStr s \<Rightarrow> s | _ \<Rightarrow> str_other L v)"

text \<open>
  \<open>int(v)\<close>: a float is truncated toward zero (floats are idealised as reals, so
  the \<open>nan\<close> and \<open>inf\<close> failures are not modelled); \<open>None\<close>, lists and dicts
  raise \<open>TypeError\<close>, a string that is no integer literal raises \<open>ValueError\<close>.
\<close>

definition py_int :: "pylib \<Rightarrow> pyval \<Rightarrow> error + int" where
  "py_int L v =
     (case v of
        PInt i \<Rightarrow> Inr i
      | PBool b \<Rightarrow> Inr (if b then 1 else 0)
      | PFloat r \<Rightarrow> Inr (if 0 \<le> r then \<lfloor>r\<rfloor> else \<lceil>r\<rceil>)
      | PStr s \<Rightarrow> (case int_of_str L s of Some i \<Rightarrow> Inr i | None \<Rightarrow> Inl (IntConversionError v))
      | _ \<Rightarrow> Inl (IntConversionError v))"

text \<open>\<open>isinstance(value, (str, int, float, bool))\<close>.\<close>

fun is_scalar :: "pyval \<Rightarrow> bool" where
  "is_scalar (PStr s) = True"
| "is_scalar (PInt i) = True"
| "is_scalar (PFloat r) = True"
| "is_scalar (PBool b) = True"
| "is_scalar v = False"

definition dict_get :: "pydict \<Rightarrow> pystr \<Rightarrow> pyval \<Rightarrow> pyval" where
  "dict_get d k dflt = (case map_of d k of None \<Rightarrow> dflt | Some v \<Rightarrow> v)"

text \<open>\<open>sub in s\<close> for strings, \<open>sep.join(parts)\<close>, \<open>s.split(sep)\<close> for a one-character separator and \<open>str(n)\<close> for \<open>n \<ge> 0\<close>.\<close>

definition contains :: "pystr \<Rightarrow> pystr \<Rightarrow> bool" where
  "contains sub s = list_ex (occurs_at s sub) [0 ..< Suc (length s)]"

fun join :: "pystr \<Rightarrow> pystr list \<Rightarrow> pystr" where
  "join sep [] = []"
| "join sep [p] = p"
| "join sep (p # q # ps) = p @ sep @ join sep (q # ps)"

fun split_on :: "nat \<Rightarrow> pystr \<Rightarrow> pystr list" where
  "split_on sep [] = [[]]"
| "split_on sep (c # cs) =
     (if c = sep then [] # split_on sep cs
      else (case split_on sep cs of
              [] \<Rightarrow> [[c]]
            | l # ls \<Rightarrow> (c # l) # ls))"

fun str_of_nat :: "nat \<Rightarrow> pystr" where
  "str_of_nat n = (if n < 10 then [48 + n] else str_of_nat (n div 10) @ [48 + n mod 10])"

section \<open>VectorStore\<close>

text \<open>
  The FAISS index is the list of the vectors added so far, in insertion order
  (\<open>index.ntotal\<close> is its length). Vector components are \<open>float32\<close> in the code and
  real numbers here; only lengths and the order of distances are used.
\<close>

type_synonym vec = "real list"

definition embedding_dim :: nat where
  "embedding_dim = 384"

text \<open>
  One \<open>metadata_entry\<close> dict: its four fixed keys, typed as \<open>add_documents\<close> builds
  them, and the remaining keys in \<open>m_extra\<close>.
\<close>

record meta_entry =
  m_text :: pyval
  m_source_file :: pystr
  m_chunk_index :: int
  m_total_chunks :: int
  m_extra :: pydict

record vector_store =
  vs_index :: "vec list"
  vs_metadata :: "meta_entry list"

definition create_new_index :: vector_store where
  "create_new_index = \<lparr>vs_index = [], vs_metadata = []\<rparr>"

text \<open>
  \<open>_load_index\<close>: \<open>disk\<close> is what the two files hold when both exist and can be
  read, \<open>None\<close> otherwise.
\<close>

definition load_index :: "(vec list \<times> meta_entry list) option \<Rightarrow> vector_store" where
  "load_index disk =
     (case disk of
        Some (vectors, entries) \<Rightarrow> \<lparr>vs_index = vectors, vs_metadata = entries\<rparr>
      | None \<Rightarrow> create_new_index)"

definition reserved_keys :: "pystr list" where
  "reserved_keys = [py ''text'', py ''source_file'', py ''chunk_index'', py ''total_chunks'']"

text \<open>One pass of \<open>for key, value in chunk.items()\<close>.\<close>

definition add_extra :: "pylib \<Rightarrow> pystr \<times> pyval \<Rightarrow> pydict \<Rightarrow> pydict" where
  "add_extra L item entry =
     (case item of
        (key, value) \<Rightarrow>
          if key \<notin> set reserved_keys then
            (if is_scalar value then AList.update key value entry
             else AList.update key (PStr (py_str L value)) entry)
          else entry)"

definition metadata_entry :: "pylib \<Rightarrow> pydict \<Rightarrow> error + meta_entry" where
  "metadata_entry L chunk =
     (let text = dict_get chunk (py ''text'') (PStr []);
          source_file = py_str L (dict_get chunk (py ''source_file'') (PStr (py ''unknown'')))
      in case py_int L (dict_get chunk (py ''chunk_index'') (PInt 0)) of
           Inl e \<Rightarrow> Inl e
         | Inr chunk_index \<Rightarrow>
             (case py_int L (dict_get chunk (py ''total_chunks'') (PInt 1)) of
                Inl e \<Rightarrow> Inl e
              | Inr total_chunks \<Rightarrow>
                  Inr \<lparr>m_text = text, m_source_file = source_file,
                       m_chunk_index = chunk_index, m_total_chunks = total_chunks,
                       m_extra = fold (add_extra L) chunk []\<rparr>))"

text \<open>
  The loop \<open>for chunk in chunks: ... self.metadata.append(metadata_entry)\<close>. An
  exception leaves the entries appended so far in place; the first component of the
  result is the exception raised, if any.
\<close>

fun store_metadata :: "pylib \<Rightarrow> vector_store \<Rightarrow> pydict list \<Rightarrow> error option \<times> vector_store" where
  "store_metadata L s [] = (None, s)"
| "store_metadata L s (chunk # rest) =
     (case metadata_entry L chunk of
        Inl e \<Rightarrow> (Some e, s)
      | Inr entry \<Rightarrow> store_metadata L (s\<lparr>vs_metadata := vs_metadata s @ [entry]\<rparr>) rest)"

text \<open>
  \<open>np.array(embeddings, dtype='float32').shape[1]\<close>: rows of different lengths are
  refused by numpy; an empty list has a one-dimensional shape.
\<close>

definition shape1 :: "vec list \<Rightarrow> error + nat" where
  "shape1 rows =
     (case rows of
        [] \<Rightarrow> Inl ShapeIndexError
      | r # rs \<Rightarrow> if list_all (\<lambda>r'. length r' = length r) rs then Inr (length r)
                 else Inl InhomogeneousShape)"

text \<open>
  \<open>add_documents\<close>. \<open>_save_index\<close> writes the two files and swallows every
  exception, so it does not change the state in memory.
\<close>

definition add_documents :: "pylib \<Rightarrow> vector_store \<Rightarrow> pydict list \<Rightarrow> vec list \<Rightarrow> error option \<times> vector_store" where
  "add_documents L s chunks embeddings =
     (if chunks = [] \<or> embeddings = [] then (None, s)
      else if length chunks \<noteq> length embeddings then
        (Some (CountMismatch (length chunks) (length embeddings)), s)
      else
        (case shape1 embeddings of
           Inl e \<Rightarrow> (Some e, s)
         | Inr d \<Rightarrow>
             if d \<noteq> embedding_dim then (Some (DimensionMismatch embedding_dim d), s)
             else store_metadata L (s\<lparr>vs_index := vs_index s @ embeddings\<rparr>) chunks))"

text \<open>
  \<open>IndexFlatL2.search\<close>: the \<open>k\<close> entries nearest in squared Euclidean distance,
  nearest first, earlier entries first among equals (\<open>sort_key\<close> is stable).
\<close>

definition l2_distance :: "vec \<Rightarrow> vec \<Rightarrow> real" where
  "l2_distance a b = sum_list (map (\<lambda>(x, y). (x - y) * (x - y)) (zip a b))"

definition faiss_search :: "vec list \<Rightarrow> vec \<Rightarrow> nat \<Rightarrow> (real \<times> nat) list" where
  "faiss_search vectors q k =
     take k (sort_key fst (map (\<lambda>i. (l2_distance q (vectors ! i), i)) [0 ..< length vectors]))"

record hit_metadata =
  hm_source_file :: pystr
  hm_chunk_index :: int
  hm_total_chunks :: int
  hm_extra :: pydict

record hit =
  h_text :: pyval
  h_metadata :: hit_metadata
  h_id :: pystr
  h_distance :: real

definition chunk_hit :: "meta_entry \<Rightarrow> nat \<Rightarrow> real \<Rightarrow> hit" where
  "chunk_hit entry idx distance =
     \<lparr>h_text = m_text entry,
      h_metadata = \<lparr>hm_source_file = m_source_file entry, hm_chunk_index = m_chunk_index entry,
                    hm_total_chunks = m_total_chunks entry, hm_extra = m_extra entry\<rparr>,
      h_id = py ''chunk_'' @ str_of_nat idx,
      h_distance = distance\<rparr>"

fun format_results :: "meta_entry list \<Rightarrow> (real \<times> nat) list \<Rightarrow> hit list" where
  "format_results entries [] = []"
| "format_results entries ((distance, idx) # rest) =
     (if idx < length entries then chunk_hit (entries ! idx) idx distance # format_results entries rest
      else format_results entries rest)"

text \<open>
  \<open>search_similar\<close>; \<open>default_top_k\<close> is \<open>config.TOP_K_CHUNKS\<close>. The FAISS
  wrapper asserts \<open>k > 0\<close>.
\<close>

definition search_similar :: "int \<Rightarrow> vector_store \<Rightarrow> vec \<Rightarrow> int option \<Rightarrow> error + hit list" where
  "search_similar default_top_k s query_embedding top_k0 =
     (let top_k = (case top_k0 of None \<Rightarrow> default_top_k | Some k \<Rightarrow> k) in
      if length (vs_index s) = 0 then Inr []
      else if length query_embedding \<noteq> embedding_dim then
        Inl (QueryDimensionMismatch embedding_dim (length query_embedding))
      else
        (let k = min top_k (int (length (vs_index s))) in
         if k \<le> 0 then Inl FaissAssertionError
         else Inr (format_results (vs_metadata s) (faiss_search (vs_index s) query_embedding (nat k)))))"

definition clear_collection :: "vector_store \<Rightarrow> vector_store" where
  "clear_collection s = create_new_index"

definition get_collection_count :: "vector_store \<Rightarrow> nat" where
  "get_collection_count s = length (vs_index s)"


text \<open>Sample inputs: a zero vector of the configured dimension and a store holding one entry.\<close>

definition zero_vector :: vec where
  "zero_vector = replicate 384 0"

definition sample_entry :: meta_entry where
  "sample_entry = \<lparr>m_text = PStr (py ''Blood pressure: 120/80, normal.''),
                    m_source_file = py ''checkup_2024-01-10.txt'',
                    m_chunk_index = 0, m_total_chunks = 1, m_extra = []\<rparr>"

definition sample_store :: vector_store where
  "sample_store = \<lparr>vs_index = [zero_vector], vs_metadata = [sample_entry]\<rparr>"

section \<open>Collaborators of the RAG service\<close>

text \<open>
  \<open>config.CHUNK_SIZE\<close>, \<open>config.CHUNK_OVERLAP\<close> and \<open>config.TOP_K_CHUNKS\<close>, read
  from the properties file.
\<close>

record config =
  CHUNK_SIZE :: int
  CHUNK_OVERLAP :: int
  TOP_K_CHUNKS :: int

text \<open>
  One record of \<open>DocumentReader.get_records_with_metadata\<close>: the file's name (also its
  \<open>source_file\<close> and its metadata's \<open>filename\<close>), its stripped non-empty content and the
  date parsed from the name, if any.
\<close>

record document =
  doc_name :: pystr
  doc_content :: pystr
  doc_date :: "pystr option"

text \<open>
  What the service reaches outside the process: the sentence-transformer model, the
  Gemini API call (\<open>Inl m\<close> is \<open>raise Exception(m)\<close>) and the records directory.
\<close>

record env =
  model_encode :: "pystr \<Rightarrow> pystr + vec"
  model_encode_batch :: "pystr list \<Rightarrow> pystr + vec list"
  call_gemini_api :: "pystr \<Rightarrow> pystr \<Rightarrow> pystr + pystr"
  records_with_metadata :: "document list"
  read_all_records :: pystr

section \<open>EmbeddingService\<close>

definition generate_embedding :: "env \<Rightarrow> pystr \<Rightarrow> error + vec" where
  "generate_embedding E text =
     (if text = [] \<or> strip text = [] then Inr (replicate 384 0)
      else (case model_encode E text of
              Inl m \<Rightarrow> Inl (EmbedderError m)
            | Inr embedding \<Rightarrow> Inr embedding))"

text \<open>Truth value of a Python object.\<close>

fun truthy :: "pyval \<Rightarrow> bool" where
  "truthy PNone = False"
| "truthy (PBool b) = b"
| "truthy (PInt i) = (i \<noteq> 0)"
| "truthy (PFloat r) = (r \<noteq> 0)"
| "truthy (PStr s) = (s \<noteq> [])"
| "truthy (PList xs) = (xs \<noteq> [])"
| "truthy (PDict d) = (d \<noteq> [])"

text \<open>\<open>text if text and text.strip() else " "\<close>; only a string has \<open>strip\<close>.\<close>

definition valid_text :: "pyval \<Rightarrow> error + pystr" where
  "valid_text text =
     (if truthy text then
        (case text of
           PStr s \<Rightarrow> Inr (if strip s \<noteq> [] then s else py '' '')
         | _ \<Rightarrow> Inl AttributeError)
      else Inr (py '' ''))"

fun valid_texts :: "pyval list \<Rightarrow> error + pystr list" where
  "valid_texts [] = Inr []"
| "valid_texts (text # texts) =
     (case valid_text text of
        Inl e \<Rightarrow> Inl e
      | Inr t \<Rightarrow> (case valid_texts texts of Inl e \<Rightarrow> Inl e | Inr ts \<Rightarrow> Inr (t # ts)))"

definition generate_embeddings_batch :: "env \<Rightarrow> pyval list \<Rightarrow> error + vec list" where
  "generate_embeddings_batch E texts =
     (if texts = [] then Inr []
      else (case valid_texts texts of
              Inl e \<Rightarrow> Inl e
            | Inr valid \<Rightarrow>
                (case model_encode_batch E valid of
                   Inl m \<Rightarrow> Inl (EmbedderError m)
                 | Inr embeddings \<Rightarrow> Inr embeddings)))"

section \<open>TextChunker.chunk_documents\<close>

definition document_metadata :: "document \<Rightarrow> pydict" where
  "document_metadata doc =
     AList.update (py ''document_name'') (PStr (doc_name doc))
       [(py ''filename'', PStr (doc_name doc)),
        (py ''date'', (case doc_date doc of None \<Rightarrow> PNone | Some d \<Rightarrow> PStr d)),
        (py ''file_type'', PStr (py ''medical_record''))]"

fun chunk_documents :: "config \<Rightarrow> document list \<Rightarrow> pydict list option" where
  "chunk_documents cfg [] = Some []"
| "chunk_documents cfg (doc # documents) =
     (case chunk_text (CHUNK_SIZE cfg) (CHUNK_OVERLAP cfg) (doc_content doc)
             (Some (doc_name doc)) (Some (document_metadata doc)) of
        None \<Rightarrow> None
      | Some chunks \<Rightarrow> map_option (\<lambda>all_chunks. chunks @ all_chunks) (chunk_documents cfg documents))"

section \<open>RAGService\<close>

subsection \<open>Prompts\<close>

definition query_system_instruction :: "pystr" where
  \<open>query_system_instruction =
     py (''You are a medical assistant helping patients understand their medical records and general health questions. \<newline>''
       @ ''When answering questions:\<newline>''
       @ ''1. If the question can be answered from the patient\'s medical records, use that information and mention it came from their records\<newline>''
       @ ''2. If the question is NOT in the medical records, inform the user clearly: "This information is not found in your medical records." Then IMMEDIATELY provide general medical information to answer the question - don\'t ask permission, just provide it\<newline>''
       @ ''3. For diet plan questions, use the patient\'s medical records (if available) to provide personalized diet recommendations based on their health conditions\<newline>''
       @ ''4. DO NOT provide recommendations directly in the answer - instead, at the end ask ONCE: "Would you like me to provide recommendations based on this information?"\<newline>''
       @ ''5. Be conversational, helpful, and empathetic\<newline>''
       @ ''6. Always include medical disclaimers that this is not a substitute for professional medical advice\<newline>''
       @ ''7. Cite which document the information came from when using specific records\<newline>''
       @ ''8. Answer questions directly and completely - don\'t ask multiple questions\<newline>''
       @ ''\<newline>''
       @ ''Format your response:\<newline>''
       @ ''- First, state whether the information is in their records or not (if not in records, say so but then immediately provide the answer)\<newline>''
       @ ''- Provide the complete answer (from records if available, or general medical information if not)\<newline>''
       @ ''- At the end, ask ONCE: "Would you like me to provide recommendations based on this information?"\<newline>''
       @ ''- Include a medical disclaimer'')\<close>

definition query_prompt_records :: "pystr \<Rightarrow> pystr \<Rightarrow> pystr" where
  \<open>query_prompt_records question context =
     py (''Please answer this question: '')
     @ question
     @ py (''\<newline>''
       @ ''\<newline>''
       @ ''Relevant Medical Records Sections:\<newline>'')
     @ context
     @ py (''\<newline>''
       @ ''\<newline>''
       @ ''Instructions:\<newline>''
       @ ''1. First confirm that this information is found in the patient\'s medical records\<newline>''
       @ ''2. Provide the complete answer based on the records above\<newline>''
       @ ''3. If the question is about diet plans, use the patient\'s health conditions from the records to provide personalized diet recommendations\<newline>''
       @ ''4. At the end, ask ONCE: "Would you like me to provide recommendations based on your medical records?"\<newline>''
       @ ''5. Include a medical disclaimer'')\<close>

definition query_prompt_general :: "pystr \<Rightarrow> pystr" where
  \<open>query_prompt_general question =
     py (''Please answer this question: '')
     @ question
     @ py (''\<newline>''
       @ ''\<newline>''
       @ ''IMPORTANT: This information is NOT found in the patient\'s medical records.\<newline>''
       @ ''\<newline>''
       @ ''Instructions:\<newline>''
       @ ''1. First inform the user: "This information is not found in your medical records."\<newline>''
       @ ''2. Then IMMEDIATELY provide the complete general medical information to answer the question - don\'t ask permission, just provide it\<newline>''
       @ ''3. If the question is about diet plans, provide a general diet plan that could help with the topic\<newline>''
       @ ''4. At the end, ask ONCE: "Would you like me to provide recommendations based on this information?"\<newline>''
       @ ''5. Include a medical disclaimer\<newline>''
       @ ''6. Be helpful and provide complete information'')\<close>

definition recommendations_system_instruction :: "pystr" where
  \<open>recommendations_system_instruction =
     py (''You are a medical assistant providing recommendations. \<newline>''
       @ ''Provide TWO types of recommendations:\<newline>''
       @ ''1. Medical record-based recommendations (specific to the patient\'s records and health conditions, if available)\<newline>''
       @ ''2. General health recommendations (best practices, lifestyle advice)\<newline>''
       @ ''\<newline>''
       @ ''For diet plan questions, provide personalized diet recommendations based on the patient\'s specific health conditions from their records.\<newline>''
       @ ''\<newline>''
       @ ''Format as a clear list. Always include a medical disclaimer.'')\<close>

definition recommendations_prompt_records :: "pystr \<Rightarrow> pystr \<Rightarrow> pystr" where
  \<open>recommendations_prompt_records question full_context =
     py (''Based on the following question and medical records, provide recommendations:\<newline>''
       @ ''\<newline>''
       @ ''Question: '')
     @ question
     @ py (''\<newline>''
       @ ''\<newline>''
       @ ''Medical Records Sections:\<newline>'')
     @ full_context
     @ py (''\<newline>''
       @ ''\<newline>''
       @ ''Please provide:\<newline>''
       @ ''1. Medical record-based recommendations (specific to this patient\'s health conditions)\<newline>''
       @ ''2. General health recommendations\<newline>''
       @ ''3. If this is about diet plans, provide a personalized diet plan based on the patient\'s health conditions\<newline>''
       @ ''4. Medical disclaimer'')\<close>

definition recommendations_prompt_general :: "pystr \<Rightarrow> pystr" where
  \<open>recommendations_prompt_general question =
     py (''Based on the following question, provide general health recommendations:\<newline>''
       @ ''\<newline>''
       @ ''Question: '')
     @ question
     @ py (''\<newline>''
       @ ''\<newline>''
       @ ''Please provide:\<newline>''
       @ ''1. General health recommendations\<newline>''
       @ ''2. If this is about diet plans, provide a general diet plan\<newline>''
       @ ''3. Medical disclaimer'')\<close>

definition context_with_all_records :: "pystr \<Rightarrow> pystr \<Rightarrow> pystr" where
  \<open>context_with_all_records context all_records =
     context
     @ py (''\<newline>''
       @ ''\<newline>''
       @ ''All Medical Records:\<newline>'')
     @ all_records\<close>

definition only_all_records :: "pystr \<Rightarrow> pystr" where
  \<open>only_all_records all_records =
     py (''All Medical Records:\<newline>'')
     @ all_records\<close>




subsection \<open>ingest_documents\<close>

record ingest_result =
  i_status :: pystr
  i_message :: pystr
  i_documents_processed :: nat
  i_chunks_created :: nat
  i_vector_store_count :: "nat option"

text \<open>\<open>[chunk['text'] for chunk in all_chunks]\<close>.\<close>

fun chunk_texts :: "pydict list \<Rightarrow> error + pyval list" where
  "chunk_texts [] = Inr []"
| "chunk_texts (chunk # chunks) =
     (case map_of chunk (py ''text'') of
        None \<Rightarrow> Inl (KeyError (py ''text''))
      | Some t \<Rightarrow> (case chunk_texts chunks of Inl e \<Rightarrow> Inl e | Inr ts \<Rightarrow> Inr (t # ts)))"

text \<open>
  The result is \<open>None\<close> when the chunker does not return; otherwise it is the
  returned dict or the exception raised, with the store as the call leaves it.
\<close>

definition ingest_documents ::
  "env \<Rightarrow> pylib \<Rightarrow> config \<Rightarrow> vector_store \<Rightarrow> bool \<Rightarrow> ((error + ingest_result) \<times> vector_store) option" where
  "ingest_documents E L cfg s0 rebuild =
     (let s = (if rebuild then clear_collection s0 else s0);
          records = records_with_metadata E
      in if records = [] then
           Some (Inr \<lparr>i_status = py ''no_documents'',
                      i_message = py ''No medical records found to ingest'',
                      i_documents_processed = 0, i_chunks_created = 0,
                      i_vector_store_count = None\<rparr>, s)
         else
           (case chunk_documents cfg records of
              None \<Rightarrow> None
            | Some all_chunks \<Rightarrow>
                if all_chunks = [] then
                  Some (Inr \<lparr>i_status = py ''no_chunks'',
                             i_message = py ''No chunks created from documents'',
                             i_documents_processed = length records, i_chunks_created = 0,
                             i_vector_store_count = None\<rparr>, s)
                else
                  (case chunk_texts all_chunks of
                     Inl e \<Rightarrow> Some (Inl e, s)
                   | Inr texts \<Rightarrow>
                       (case generate_embeddings_batch E texts of
                          Inl e \<Rightarrow> Some (Inl e, s)
                        | Inr embeddings \<Rightarrow>
                            (case add_documents L s all_chunks embeddings of
                               (Some e, s') \<Rightarrow> Some (Inl e, s')
                             | (None, s') \<Rightarrow>
                                 Some (Inr \<lparr>i_status = py ''success'',
                                            i_message = py ''Successfully ingested ''
                                              @ str_of_nat (length records) @ py '' documents'',
                                            i_documents_processed = length records,
                                            i_chunks_created = length all_chunks,
                                            i_vector_store_count = Some (get_collection_count s')\<rparr>,
                                       s'))))))"

subsection \<open>query\<close>

record query_result =
  q_answer :: pystr
  q_recommendations :: "pystr list"
  q_sources :: "pystr list"
  q_needs_followup :: bool
  q_has_records :: bool

text \<open>\<open>str.lower\<close>, character by character.\<close>

definition lower :: "pylib \<Rightarrow> pystr \<Rightarrow> pystr" where
  "lower L s = concat (map (lower_char L) s)"

text \<open>One pass of \<open>for chunk in similar_chunks\<close>, on \<open>(context_parts, sources)\<close>.\<close>

definition add_context :: "pylib \<Rightarrow> hit \<Rightarrow> pystr list \<times> pystr list \<Rightarrow> pystr list \<times> pystr list" where
  "add_context L chunk acc =
     (case acc of
        (context_parts, sources) \<Rightarrow>
          (let source_file = hm_source_file (h_metadata chunk);
               chunk_text = h_text chunk;
               context_parts' = context_parts @
                 [py ''[From '' @ source_file @ py '']\<newline>'' @ py_str L chunk_text]
           in if source_file \<notin> set sources then (context_parts', sources @ [source_file])
              else (context_parts', sources)))"

definition collect_context :: "pylib \<Rightarrow> hit list \<Rightarrow> pystr list \<times> pystr list" where
  "collect_context L similar_chunks = fold (add_context L) similar_chunks ([], [])"

definition followup_phrases :: "pystr list" where
  "followup_phrases = [py ''would you like'', py ''do you want'', py ''can provide'', py ''would you'']"

text \<open>The part of \<open>query\<close> after the lazy ingestion.\<close>

definition query_answer :: "env \<Rightarrow> pylib \<Rightarrow> config \<Rightarrow> vector_store \<Rightarrow> pystr \<Rightarrow> error + query_result" where
  "query_answer E L cfg s question =
     (case generate_embedding E question of
        Inl e \<Rightarrow> Inl e
      | Inr question_embedding \<Rightarrow>
          (case search_similar (TOP_K_CHUNKS cfg) s question_embedding None of
             Inl e \<Rightarrow> Inl e
           | Inr similar_chunks \<Rightarrow>
               (let has_relevant_records = (length similar_chunks > 0);
                    (context_parts, sources) =
                       (if has_relevant_records then collect_context L similar_chunks else ([], []));
                    context = (if context_parts \<noteq> [] then join (py ''\<newline>\<newline>'') context_parts else []);
                    prompt = (if has_relevant_records then query_prompt_records question context
                              else query_prompt_general question)
                in case call_gemini_api E prompt query_system_instruction of
                     Inr full_response \<Rightarrow>
                       (let answer = strip full_response
                        in Inr \<lparr>q_answer = answer, q_recommendations = [], q_sources = sources,
                                q_needs_followup =
                                  list_ex (\<lambda>phrase. contains phrase (lower L answer)) followup_phrases,
                                q_has_records = has_relevant_records\<rparr>)
                   | Inl m \<Rightarrow>
                       Inr \<lparr>q_answer = py ''Error generating answer: '' @ m,
                            q_recommendations = [], q_sources = sources,
                            q_needs_followup = False,
                            q_has_records = has_relevant_records\<rparr>)))"

definition no_records_result :: query_result where
  \<open>no_records_result =
     \<lparr>q_answer = py (''I don\'t have access to your medical records yet. ''
                     @ ''Please upload your medical records first.''),
      q_recommendations = [], q_sources = [], q_needs_followup = False, q_has_records = False\<rparr>\<close>

definition query ::
  "env \<Rightarrow> pylib \<Rightarrow> config \<Rightarrow> vector_store \<Rightarrow> pystr \<Rightarrow> ((error + query_result) \<times> vector_store) option" where
  "query E L cfg s question =
     (if get_collection_count s = 0 then
        (case ingest_documents E L cfg s False of
           None \<Rightarrow> None
         | Some (Inl e, s') \<Rightarrow> Some (Inl e, s')
         | Some (Inr ingest_result, s') \<Rightarrow>
             if i_status ingest_result \<noteq> py ''success'' then Some (Inr no_records_result, s')
             else Some (query_answer E L cfg s' question, s'))
      else Some (query_answer E L cfg s question, s))"

subsection \<open>get_recommendations\<close>

record recommendations_result =
  r_recommendations :: "pystr list"
  r_sources :: "pystr list"

definition startswith :: "pystr \<Rightarrow> pystr \<Rightarrow> bool" where
  "startswith prefix s \<longleftrightarrow> take (length prefix) s = prefix"

text \<open>The characters of \<open>'-\<bullet>*0123456789.) '\<close>; the bullet is U+2022.\<close>

definition marker_chars :: pystr where
  "marker_chars = [45, 8226, 42] @ py ''0123456789.) ''"

definition fallback_recommendation :: pystr where
  "fallback_recommendation =
     py ''Please consult with your healthcare provider for personalized medical advice.''"

text \<open>One pass of \<open>for line in full_response.split('\n')\<close>.\<close>

definition parse_line :: "pylib \<Rightarrow> pystr \<Rightarrow> pystr list \<Rightarrow> pystr list" where
  "parse_line L line0 recommendations =
     (let line = strip line0 in
      if line \<noteq> [] \<and>
         (startswith [45] line \<or> startswith [8226] line \<or> startswith [42] line \<or>
          (length line > 2 \<and> isdigit L (line ! 0) \<and> line ! 1 \<in> set [46, 41]))
      then
        (let rec = strip (dropWhile (\<lambda>c. c \<in> set marker_chars) line) in
         if rec \<noteq> [] \<and> \<not> contains (py ''disclaimer'') (lower L rec) \<and> length rec > 10
         then recommendations @ [rec]
         else recommendations)
      else recommendations)"

definition parse_recommendations :: "pylib \<Rightarrow> pystr \<Rightarrow> pystr list" where
  "parse_recommendations L full_response =
     (let recommendations = fold (parse_line L) (split_on 10 full_response) []
      in if recommendations = [] then [fallback_recommendation] else recommendations)"

definition recommendations_prompt :: "pystr \<Rightarrow> bool \<Rightarrow> pystr \<Rightarrow> pystr \<Rightarrow> pystr" where
  "recommendations_prompt question context_from_records context records_text =
     (if context_from_records \<and> (context \<noteq> [] \<or> records_text \<noteq> []) then
        (let full_context =
               (if records_text \<noteq> [] \<and> \<not> contains context records_text then
                  (if context \<noteq> [] then context_with_all_records context records_text
                   else only_all_records records_text)
                else context)
         in recommendations_prompt_records question full_context)
      else recommendations_prompt_general question)"

definition get_recommendations ::
  "env \<Rightarrow> pylib \<Rightarrow> config \<Rightarrow> vector_store \<Rightarrow> pystr \<Rightarrow> bool \<Rightarrow> error + recommendations_result" where
  "get_recommendations E L cfg s question context_from_records =
     (case generate_embedding E question of
        Inl e \<Rightarrow> Inl e
      | Inr question_embedding \<Rightarrow>
          (case search_similar (TOP_K_CHUNKS cfg) s question_embedding None of
             Inl e \<Rightarrow> Inl e
           | Inr similar_chunks \<Rightarrow>
               (let (context_parts, sources) = collect_context L similar_chunks;
                    context = (if context_parts \<noteq> [] then join (py ''\<newline>\<newline>'') context_parts else []);
                    prompt = recommendations_prompt question context_from_records context (read_all_records E)
                in case call_gemini_api E prompt recommendations_system_instruction of
                     Inr full_response \<Rightarrow>
                       Inr \<lparr>r_recommendations = parse_recommendations L full_response,
                            r_sources = sources\<rparr>
                   | Inl m \<Rightarrow>
                       Inr \<lparr>r_recommendations = [py ''Error generating recommendations: '' @ m],
                            r_sources = sources\<rparr>)))"

subsection \<open>get_summary\<close>




section \<open>The specification's wording\<close>

text \<open>
  The citation list as the specification words it: the source names with duplicates
  removed, keeping each name where it is first seen.
\<close>

fun first_seen :: "'a list \<Rightarrow> 'a list" where
  "first_seen [] = []"
| "first_seen (x # xs) = x # first_seen (filter (\<lambda>y. y \<noteq> x) xs)"

text \<open>
  The recommendation parser as the specification words it: the lines that start with a
  bullet marker or with a digit followed by \<open>.\<close> or \<open>)\<close>, the marker and the
  surrounding whitespace stripped, without the results that mention a disclaimer or are
  too short. The threshold is the code's: more than 10 characters are needed.
\<close>

definition starts_with_marker :: "pylib \<Rightarrow> pystr \<Rightarrow> bool" where
  "starts_with_marker L line \<longleftrightarrow>
     (case line of
        [] \<Rightarrow> False
      | c # rest \<Rightarrow>
          c = 45 \<or> c = 8226 \<or> c = 42 \<or>
          (case rest of [] \<Rightarrow> False | c' # _ \<Rightarrow> isdigit L c \<and> (c' = 46 \<or> c' = 41)))"

definition strip_marker :: "pystr \<Rightarrow> pystr" where
  "strip_marker line = strip (dropWhile (\<lambda>c. c \<in> set marker_chars) line)"

definition acceptable :: "pylib \<Rightarrow> pystr \<Rightarrow> bool" where
  "acceptable L r \<longleftrightarrow> 10 < length r \<and> \<not> contains (py ''disclaimer'') (lower L r)"

definition listed_recommendations :: "pylib \<Rightarrow> pystr \<Rightarrow> pystr list" where
  "listed_recommendations L response =
     filter (acceptable L)
       (map strip_marker (filter (starts_with_marker L) (map strip (split_on 10 response))))"

section \<open>Sample collaborators\<close>

text \<open>
  The ASCII part of the library tables, a configuration with the default sizes, and
  collaborators that answer every call with a fixed value.
\<close>

definition ascii_lib :: pylib where
  "ascii_lib =
     \<lparr>str_other = (\<lambda>v. py ''None''),
      int_of_str = (\<lambda>s. None),
      lower_char = (\<lambda>c. if 65 \<le> c \<and> c \<le> 90 then [c + 32] else [c]),
      isdigit = (\<lambda>c. 48 \<le> c \<and> c \<le> 57)\<rparr>"

definition default_config :: config where
  "default_config = \<lparr>CHUNK_SIZE = 500, CHUNK_OVERLAP = 50, TOP_K_CHUNKS = 3\<rparr>"

definition fixed_env :: "(pystr + vec) \<Rightarrow> (pystr + pystr) \<Rightarrow> env" where
  "fixed_env embedding response =
     \<lparr>model_encode = (\<lambda>t. embedding),
      model_encode_batch = (\<lambda>ts. case embedding of Inl m \<Rightarrow> Inl m | Inr v \<Rightarrow> Inr (map (\<lambda>t. v) ts)),
      call_gemini_api = (\<lambda>prompt system_instruction. response),
      records_with_metadata = [],
      read_all_records = []\<rparr>"

definition answering_env :: env where
  "answering_env = fixed_env (Inr zero_vector) (Inr (py ''General answer.''))"

definition blood_pressure_question :: pystr where
  "blood_pressure_question = py ''What was my blood pressure?''"

definition unrelated_question :: pystr where
  "unrelated_question = py ''What is the capital of France?''"



text \<open>
  The exception, if any, that embedding the question and searching the store raise;
  both happen before the generator is called.
\<close>

definition retrieval_error :: "env \<Rightarrow> config \<Rightarrow> vector_store \<Rightarrow> pystr \<Rightarrow> error option" where
  "retrieval_error E cfg s question =
     (case generate_embedding E question of
        Inl e \<Rightarrow> Some e
      | Inr v \<Rightarrow>
          (case search_similar (TOP_K_CHUNKS cfg) s v None of
             Inl e \<Rightarrow> Some e
           | Inr hits \<Rightarrow> None))"

definition ten_character_response :: pystr where
  "ten_character_response = py ''- abcdefghij''"

definition listing_response :: pystr where
  "listing_response =
     py (''1. Drink more water every day\<newline>''
       @ ''- Disclaimer: this is not medical advice\<newline>''
       @ ''* Walk daily\<newline>''
       @ ''Stay positive and rest well'')"

section \<open>Properties of the chunker\<close>

lemma rfind_found:
  assumes "rfind s sub from \<noteq> - 1" and "0 \<le> from"
  shows "from \<le> rfind s sub from \<and> rfind s sub from + int (length sub) \<le> int (length s)"
proof -
  let ?c = "filter (occurs_at s sub) (rev [nat from ..< Suc (length s)])"
  from assms obtain i rest where c: "?c = i # rest" and r: "rfind s sub from = int i"
    by (auto simp: rfind_def Let_def split: list.splits if_splits)
  have "i \<in> set ?c" by (subst c) simp
  then have "i \<in> set [nat from ..< Suc (length s)]" and i3: "occurs_at s sub i" by auto
  then have i: "nat from \<le> i" "i \<le> length s" "occurs_at s sub i" using i3 by auto
  from i(3) have "length (take (length sub) (drop i s)) = length sub"
    by (simp add: occurs_at_def)
  then have "i + length sub \<le> length s" using i(2) by simp
  with i(1) r assms(2) show ?thesis by simp
qed

lemma find_boundary_Some:
  assumes "find_boundary text start ct from bs = Some (e, c)" and "0 \<le> from"
  shows "start + from < e \<and> c = slice text start e"
  using assms
proof (induction bs)
  case Nil
  then show ?case by simp
next
  case (Cons b bs)
  show ?case
  proof (cases "b \<noteq> [] \<and> rfind ct b from \<noteq> - 1")
    case True
    then have "from \<le> rfind ct b from" using rfind_found Cons.prems(2) by blast
    moreover have "0 < int (length b)" using True by simp
    moreover have "e = start + rfind ct b from + int (length b)" "c = slice text start e"
      using Cons.prems(1) True by (auto simp: Let_def)
    ultimately show ?thesis by linarith
  next
    case False
    then have "find_boundary text start ct from bs = Some (e, c)"
      using Cons.prems(1) by (auto simp: Let_def split: if_splits)
    then show ?thesis using Cons.IH Cons.prems(2) by blast
  qed
qed

lemma int_08_less: "1 \<le> cs \<Longrightarrow> 0 \<le> int_08 cs \<and> int_08 cs < cs"
  unfolding int_08_def by auto

lemma window_progress:
  assumes "window cs text start = (e, c)" and "1 \<le> cs" and "ov \<le> int_08 cs"
  shows "start < e - ov \<and> start < e \<and> c = slice text start e"
proof -
  have b: "0 \<le> int_08 cs" "int_08 cs < cs" using int_08_less assms(2) by auto
  have m: "max (start + int_08 cs) start - start = int_08 cs" using b by simp
  show ?thesis
  proof (cases "start + cs < int (length text)")
    case False
    then show ?thesis using assms b by (auto simp: window_def Let_def)
  next
    case True
    show ?thesis
    proof (cases "find_boundary text start (slice text start (start + cs)) (int_08 cs) boundary_chars")
      case None
      then show ?thesis using assms b True m by (auto simp: window_def Let_def)
    next
      case (Some r)
      then have "find_boundary text start (slice text start (start + cs)) (int_08 cs) boundary_chars = Some (e, c)"
        using assms(1) True m by (simp add: window_def Let_def)
      from find_boundary_Some[OF this b(1)] assms(3) b(1) show ?thesis by simp
    qed
  qed
qed

lemma chunk_loop_returns:
  assumes "1 \<le> cs" and "ov \<le> int_08 cs"
  shows "start < int (length text) \<Longrightarrow>
     \<exists>new. chunk_loop cs ov text sf md start idx chunks = Some (chunks @ new) \<and>
           chunks_from cs ov text sf md start idx new"
proof (induction "nat (int (length text) - start)" arbitrary: start idx chunks rule: less_induct)
  case less
  obtain e c where w: "window cs text start = (e, c)" by (cases "window cs text start")
  have prog: "start < e - ov" using window_progress[OF w assms] by simp
  show ?case
  proof (cases "int (length text) \<le> e - ov")
    case True
    have "chunk_loop cs ov text sf md start idx chunks = Some (chunks @ [chunk_data c idx sf start e md])"
      by (subst chunk_loop.simps) (simp add: less.prems w True Let_def)
    moreover have "chunks_from cs ov text sf md start idx [chunk_data c idx sf start e md]"
      using w True by (rule chunks_from.final)
    ultimately show ?thesis by blast
  next
    case False
    then have lt: "e - ov < int (length text)" by simp
    have "nat (int (length text) - (e - ov)) < nat (int (length text) - start)"
      using prog lt by simp
    from less.hyps[OF this lt]
    obtain new where n: "chunk_loop cs ov text sf md (e - ov) (idx + 1) (chunks @ [chunk_data c idx sf start e md])
        = Some ((chunks @ [chunk_data c idx sf start e md]) @ new)"
      and cf: "chunks_from cs ov text sf md (e - ov) (idx + 1) new" by blast
    have "chunk_loop cs ov text sf md start idx chunks = Some (chunks @ (chunk_data c idx sf start e md # new))"
      using n by (subst chunk_loop.simps) (simp add: less.prems w False Let_def)
    moreover have "chunks_from cs ov text sf md start idx (chunk_data c idx sf start e md # new)"
      using w lt cf by (rule chunks_from.more)
    ultimately show ?thesis by blast
  qed
qed

text \<open>
  The chunker returns whenever \<open>chunk_overlap \<le> int(0.8 * chunk_size)\<close>: every window
  then ends more than \<open>chunk_overlap\<close> characters after its start.
\<close>

lemma chunk_text_returns:
  assumes "1 \<le> cs" and "ov \<le> int_08 cs"
  shows "\<exists>chunks. chunk_text cs ov text sf md = Some chunks"
proof (cases "text = [] \<or> strip text = [] \<or> int (length (strip text)) \<le> cs")
  case True
  then show ?thesis by (auto simp: chunk_text_def Let_def)
next
  case False
  then have "0 < int (length (strip text))" by simp
  from chunk_loop_returns[OF assms this, of sf md 0 "[]"] False
  show ?thesis by (auto simp: chunk_text_def Let_def)
qed

lemma sample_text_eq: "sample_text = [97,97,97,97,97,97,97,97,32,98,98,98,98,98,98,98,98,98,98,98]"
  by (simp add: sample_text_def py_def)

lemma sample_window: "window 10 sample_text 0 = (9, [97,97,97,97,97,97,97,97,32])"
  by (simp add: sample_text_eq window_def slice_def int_08_def boundary_chars_def rfind_def occurs_at_def upt_rec Let_def)

lemma sample_strip: "strip sample_text = sample_text"
  by (simp add: sample_text_eq strip_def lstrip_def rstrip_def isspace_def)

lemma chunk_loop_stuck:
  assumes "chunk_loop cs ov tx sf md start idx chunks = Some y"
  shows "\<not> (cs = 10 \<and> ov = 9 \<and> tx = sample_text \<and> start = 0)"
proof (rule chunk_loop.raw_induct
    [where P = "\<lambda>cs ov tx sf md start idx chunks y. \<not> (cs = 10 \<and> ov = 9 \<and> tx = sample_text \<and> start = 0)",
     OF _ assms], goal_cases)
  case (1 loop cs ov tx sf md start idx chunks y)
  show ?case
  proof
    assume a: "cs = 10 \<and> ov = 9 \<and> tx = sample_text \<and> start = 0"
    have len: "int (length sample_text) = 20" by (simp add: sample_text_eq)
    from 1(2) a have "loop 10 9 sample_text sf md 0 (idx + 1)
        (chunks @ [chunk_data [97,97,97,97,97,97,97,97,32] idx sf 0 9 md]) = Some y"
      by (simp add: sample_window len Let_def)
    from 1(1)[OF this] show False by simp
  qed
qed

text \<open>
  C2. With \<open>chunk_size = 10\<close> and \<open>chunk_overlap = 9\<close> (so \<open>0 \<le> overlap < chunk_size\<close>)
  the first window of the sample text is cut after the space at index 8, \<open>end = 9\<close>,
  and the next start is \<open>9 - 9 = 0\<close> again: the start never advances and
  \<open>chunk_text\<close> does not return.
\<close>

theorem chunk_text_diverges: "chunk_text 10 9 sample_text sf md = None"
proof -
  have "chunk_loop 10 9 sample_text sf md 0 0 [] = None"
    using chunk_loop_stuck[of 10 9 sample_text sf md 0 0 "[]"] by (cases "chunk_loop 10 9 sample_text sf md 0 0 []") auto
  moreover have "int (length sample_text) = 20" "sample_text \<noteq> []" by (simp_all add: sample_text_eq)
  ultimately show ?thesis by (simp add: chunk_text_def sample_strip Let_def)
qed

lemma map_of_dict_update_other:
  "k \<notin> fst ` set m \<Longrightarrow> map_of (dict_update d m) k = map_of d k"
  unfolding dict_update_def
  by (induction m arbitrary: d) (auto simp: update_conv')

lemma map_of_add_metadata:
  "(case md of None \<Rightarrow> True | Some m \<Rightarrow> k \<notin> fst ` set m) \<Longrightarrow> map_of (add_metadata md d) k = map_of d k"
  by (auto simp: add_metadata_def map_of_dict_update_other split: option.splits)

lemma chunk_data_window:
  assumes "keeps_window_keys md"
  shows "start_char (chunk_data c idx sf s e md) = Some (PInt s)"
    and "end_char (chunk_data c idx sf s e md) = Some (PInt e)"
    and "chunk_text_of (chunk_data c idx sf s e md) = Some (PStr (strip c))"
  using assms
  by (auto simp: keeps_window_keys_def start_char_def end_char_def chunk_text_of_def chunk_data_def
      map_of_add_metadata py_def split: option.splits)

lemma chunks_from_props:
  assumes "chunks_from cs ov tx sf md start idx cks" and "keeps_window_keys md"
    and "1 \<le> cs" and "ov \<le> int_08 cs" and "0 \<le> start"
  shows "cks \<noteq> [] \<and> start_char (hd cks) = Some (PInt start) \<and> consecutive ov cks \<and>
         (\<exists>e. end_char (last cks) = Some (PInt e) \<and> int (length tx) + ov \<le> e) \<and>
         (\<forall>c\<in>set cks. records_window tx c)"
  using assms(1,5)
proof (induction rule: chunks_from.induct)
  case (final start e c idx)
  from window_progress[OF final(1) assms(3,4)] have p: "start < e - ov" "c = slice tx start e"
    and se: "start < e" by auto
  from se have "records_window tx (chunk_data c idx sf start e md)"
    using final(3) p(2) by (simp add: records_window_def chunk_data_window[OF assms(2)])
  then show ?case using final(2) by (simp add: chunk_data_window[OF assms(2)])
next
  case (more start e c idx rest)
  from window_progress[OF more(1) assms(3,4)] have p: "start < e - ov" "c = slice tx start e"
    and se: "start < e" by auto
  have rw: "records_window tx (chunk_data c idx sf start e md)"
    using more.prems p(2) se by (simp add: records_window_def chunk_data_window[OF assms(2)])
  have ih: "rest \<noteq> [] \<and> start_char (hd rest) = Some (PInt (e - ov)) \<and> consecutive ov rest \<and>
         (\<exists>e. end_char (last rest) = Some (PInt e) \<and> int (length tx) + ov \<le> e) \<and>
         (\<forall>c\<in>set rest. records_window tx c)"
    using more.IH p(1) more.prems by simp
  then obtain b r where rest: "rest = b # r" by (cases rest) auto
  show ?case using ih rw by (simp add: rest chunk_data_window[OF assms(2)])
qed

lemma total_chunks_keeps:
  "start_char (AList.update (py ''total_chunks'') v c) = start_char c"
  "end_char (AList.update (py ''total_chunks'') v c) = end_char c"
  "chunk_text_of (AList.update (py ''total_chunks'') v c) = chunk_text_of c"
  by (simp_all add: start_char_def end_char_def chunk_text_of_def update_conv' py_def)

lemma consecutive_map:
  assumes "\<And>c. start_char (f c) = start_char c" and "\<And>c. end_char (f c) = end_char c"
  shows "consecutive ov (map f cks) = consecutive ov cks"
  by (induction ov cks rule: consecutive.induct)
    (simp_all add: assms cong: option.case_cong pyval.case_cong)

lemma records_window_total:
  "records_window tx (AList.update (py ''total_chunks'') v c) = records_window tx c"
  by (simp add: records_window_def total_chunks_keeps cong: option.case_cong pyval.case_cong)

lemma set_total_chunks_props:
  assumes "cks \<noteq> []"
  shows "set_total_chunks cks \<noteq> []"
    and "start_char (hd (set_total_chunks cks)) = start_char (hd cks)"
    and "end_char (last (set_total_chunks cks)) = end_char (last cks)"
    and "consecutive ov (set_total_chunks cks) = consecutive ov cks"
    and "(\<forall>c\<in>set (set_total_chunks cks). records_window tx c) = (\<forall>c\<in>set cks. records_window tx c)"
  using assms
  by (simp_all add: set_total_chunks_def hd_map last_map total_chunks_keeps consecutive_map records_window_total)

lemma sample_windows:
  "window 10 sample_text 6 = (16, [97,97,32,98,98,98,98,98,98,98])"
  "window 10 sample_text 13 = (23, [98,98,98,98,98,98,98])"
  by (simp_all add: sample_text_eq window_def slice_def int_08_def boundary_chars_def rfind_def
      occurs_at_def upt_rec Let_def)

lemma sample_loop:
  "chunk_loop 10 3 sample_text None None 0 0 [] =
     Some [chunk_data [97,97,97,97,97,97,97,97,32] 0 None 0 9 None,
           chunk_data [97,97,32,98,98,98,98,98,98,98] 1 None 6 16 None,
           chunk_data [98,98,98,98,98,98,98] 2 None 13 23 None]"
proof -
  have len: "int (length sample_text) = 20" by (simp add: sample_text_eq)
  show ?thesis
    apply (subst chunk_loop.simps, simp add: len sample_window Let_def)
    apply (subst chunk_loop.simps, simp add: len sample_windows Let_def)
    apply (subst chunk_loop.simps, simp add: len sample_windows Let_def)
    done
qed

text \<open>
  C6, as stated, fails: with \<open>chunk_size = 10\<close> and \<open>chunk_overlap = 3\<close> the sample
  text, of length 20, is returned in chunks whose last \<open>end_char\<close> is 23.
\<close>

theorem chunk_text_end_char_counterexample:
  "chunk_text 10 3 sample_text None None \<noteq> None \<and>
   end_char (last (the (chunk_text 10 3 sample_text None None))) = Some (PInt 23) \<and>
   int (length (strip sample_text)) = 20"
proof -
  have len: "int (length sample_text) = 20" "sample_text \<noteq> []" by (simp_all add: sample_text_eq)
  have k: "keeps_window_keys None" by (simp add: keeps_window_keys_def)
  show ?thesis
    using len
    by (simp add: chunk_text_def sample_strip Let_def sample_loop set_total_chunks_def
        total_chunks_keeps chunk_data_window[OF k])
qed

text \<open>
  C6, amended. When \<open>chunk_overlap \<le> int(0.8 * chunk_size)\<close>, \<open>chunk_size \<ge> 1\<close>, the
  stripped text is longer than \<open>chunk_size\<close> and the metadata leaves the keys
  \<open>text\<close>, \<open>start_char\<close>, \<open>end_char\<close> alone, \<open>chunk_text\<close> returns a non-empty list of
  chunks; the first starts at 0, each next one starts \<open>chunk_overlap\<close> characters before the
  end of the previous one, every chunk's text is the stripped slice of its window, and the
  last \<open>end_char\<close> is at least the text's length plus \<open>chunk_overlap\<close> (it is the
  unclamped \<open>start + chunk_size\<close>, not the text's length).
\<close>

theorem chunk_text_window_chain:
  assumes "1 \<le> cs" and "ov \<le> int_08 cs" and "cs < int (length (strip text))"
    and "keeps_window_keys md"
  shows "\<exists>chunks. chunk_text cs ov text sf md = Some chunks \<and> chunks \<noteq> [] \<and>
           start_char (hd chunks) = Some (PInt 0) \<and> consecutive ov chunks \<and>
           (\<exists>e. end_char (last chunks) = Some (PInt e) \<and> int (length (strip text)) + ov \<le> e) \<and>
           (\<forall>c\<in>set chunks. records_window (strip text) c)"
proof -
  let ?t = "strip text"
  have ne: "?t \<noteq> []" using assms(1,3) by auto
  then have ne0: "text \<noteq> []" by (auto simp: strip_def lstrip_def rstrip_def)
  have "0 < int (length ?t)" using ne by simp
  from chunk_loop_returns[OF assms(1,2) this, of sf md 0 "[]"]
  obtain cks where l: "chunk_loop cs ov ?t sf md 0 0 [] = Some cks"
    and cf: "chunks_from cs ov ?t sf md 0 0 cks" by auto
  have ct: "chunk_text cs ov text sf md = Some (set_total_chunks cks)"
    using ne ne0 assms(3) l by (simp add: chunk_text_def Let_def)
  from chunks_from_props[OF cf assms(4,1,2)]
  have p: "cks \<noteq> []" "start_char (hd cks) = Some (PInt 0)" "consecutive ov cks"
    "\<exists>e. end_char (last cks) = Some (PInt e) \<and> int (length ?t) + ov \<le> e"
    "\<forall>c\<in>set cks. records_window ?t c" by auto
  show ?thesis
    using ct p set_total_chunks_props[OF p(1)] by auto
qed

text \<open>C6, amended: the hypotheses hold for the sample text with sizes 10 and 3.\<close>

theorem chunk_text_window_chain_witness:
  "(1::int) \<le> 10 \<and> 3 \<le> int_08 10 \<and> 10 < int (length (strip sample_text)) \<and> keeps_window_keys None \<and>
   (\<exists>chunks. chunk_text 10 3 sample_text None None = Some chunks \<and> chunks \<noteq> [] \<and>
           start_char (hd chunks) = Some (PInt 0) \<and> consecutive 3 chunks \<and>
           (\<exists>e. end_char (last chunks) = Some (PInt e) \<and> int (length (strip sample_text)) + 3 \<le> e) \<and>
           (\<forall>c\<in>set chunks. records_window (strip sample_text) c))"
proof -
  have "int (length sample_text) = 20" by (simp add: sample_text_eq)
  then have h: "(1::int) \<le> 10" "3 \<le> int_08 10" "10 < int (length (strip sample_text))" "keeps_window_keys None"
    by (simp_all add: int_08_def sample_strip keeps_window_keys_def)
  show ?thesis using h chunk_text_window_chain[OF h, of None] by blast
qed

section \<open>Properties of the vector store\<close>

text \<open>
  C1. With a non-empty chunk list and an empty embeddings list the lengths differ, yet
  \<open>add_documents\<close> returns normally: the guard \<open>if not chunks or not embeddings: return\<close>
  comes before the count check. No error is raised (and nothing is written).
\<close>

theorem add_documents_no_embeddings: "add_documents L s (c # cs) [] = (None, s)"
  by (simp add: add_documents_def)

text \<open>
  The rest of C1 holds: when both lists are non-empty, lists of different lengths are
  refused with the count error, a vector of the wrong length is refused by numpy or with
  the dimension error, and the state is unchanged in both cases.
\<close>

lemma add_documents_count_mismatch:
  "chunks \<noteq> [] \<Longrightarrow> embeddings \<noteq> [] \<Longrightarrow> length chunks \<noteq> length embeddings \<Longrightarrow>
     add_documents L s chunks embeddings = (Some (CountMismatch (length chunks) (length embeddings)), s)"
  by (simp add: add_documents_def)

lemma shape1_ok: "shape1 rows = Inr d \<Longrightarrow> \<forall>r\<in>set rows. length r = d"
  by (auto simp: shape1_def list_all_iff split: list.splits if_splits)

lemma add_documents_dimension_mismatch:
  assumes "chunks \<noteq> []" and "length chunks = length embeddings"
    and "v \<in> set embeddings" and "length v \<noteq> embedding_dim"
  shows "\<exists>e. add_documents L s chunks embeddings = (Some e, s) \<and>
             (e = InhomogeneousShape \<or> (\<exists>d. e = DimensionMismatch embedding_dim d))"
proof -
  have ne: "embeddings \<noteq> []" using assms(3) by auto
  show ?thesis
  proof (cases "shape1 embeddings")
    case (Inl e)
    then have "e = InhomogeneousShape" using ne by (auto simp: shape1_def split: list.splits if_splits)
    then show ?thesis using Inl ne assms(1,2) by (simp add: add_documents_def)
  next
    case (Inr d)
    then have "d \<noteq> embedding_dim" using shape1_ok[OF Inr] assms(3,4) by auto
    then show ?thesis using Inr ne assms(1,2) by (simp add: add_documents_def)
  qed
qed

text \<open>
  The invariant is preserved by every call of \<open>add_documents\<close> that returns normally.
\<close>

lemma store_metadata_index: "store_metadata L s chunks = (r, s') \<Longrightarrow> vs_index s' = vs_index s"
  by (induction chunks arbitrary: s) (auto split: sum.splits)

lemma store_metadata_ok_length:
  "store_metadata L s chunks = (None, s') \<Longrightarrow> length (vs_metadata s') = length (vs_metadata s) + length chunks"
  by (induction chunks arbitrary: s) (auto split: sum.splits)

lemma add_documents_ok_invariant:
  assumes "add_documents L s chunks embeddings = (None, s')"
    and "length (vs_index s) = length (vs_metadata s)"
  shows "length (vs_index s') = length (vs_metadata s')"
proof (cases "chunks = [] \<or> embeddings = []")
  case True
  then show ?thesis using assms by (auto simp: add_documents_def)
next
  case False
  with assms(1) have len: "length chunks = length embeddings"
    and sm: "store_metadata L (s\<lparr>vs_index := vs_index s @ embeddings\<rparr>) chunks = (None, s')"
    by (auto simp: add_documents_def split: if_splits sum.splits)
  from store_metadata_index[OF sm] store_metadata_ok_length[OF sm] len assms(2)
  show ?thesis by simp
qed

lemma create_new_index_invariant:
  "length (vs_index create_new_index) = length (vs_metadata create_new_index)"
  "length (vs_index (clear_collection s)) = length (vs_metadata (clear_collection s))"
  by (simp_all add: create_new_index_def clear_collection_def)

lemma zero_vector_length: "length zero_vector = embedding_dim"
  by (simp add: zero_vector_def embedding_dim_def)

lemma key_lits:
  "py ''text'' \<noteq> py ''chunk_index''" "py ''source_file'' \<noteq> py ''chunk_index''" "py ''total_chunks'' \<noteq> py ''chunk_index''"
  "py ''chunk_index'' \<noteq> py ''text''" "py ''source_file'' \<noteq> py ''text''" "py ''total_chunks'' \<noteq> py ''text''"
  by (simp_all add: py_def)

text \<open>
  C5. A chunk whose \<open>chunk_index\<close> is \<open>None\<close> passes both validations; the vector is
  added to the index, then \<open>int(None)\<close> raises before the metadata entry is appended. The
  store is left with one vector and no metadata.
\<close>

theorem add_documents_partial_write:
  "add_documents L create_new_index [[(py ''chunk_index'', PNone)]] [zero_vector] =
     (Some (IntConversionError PNone), \<lparr>vs_index = [zero_vector], vs_metadata = []\<rparr>)"
  by (simp add: add_documents_def shape1_def zero_vector_length create_new_index_def
      metadata_entry_def dict_get_def py_int_def key_lits Let_def)

text \<open>
  C10. The \<open>text\<close> field is stored as supplied, without \<open>str(...)\<close>: a chunk whose text
  is \<open>None\<close> puts \<open>None\<close> into the metadata store.
\<close>

theorem add_documents_text_not_coerced:
  "add_documents L create_new_index [[(py ''text'', PNone)]] [zero_vector] =
     (None, \<lparr>vs_index = [zero_vector],
             vs_metadata = [\<lparr>m_text = PNone, m_source_file = py ''unknown'',
                             m_chunk_index = 0, m_total_chunks = 1, m_extra = []\<rparr>]\<rparr>)"
  by (simp add: add_documents_def shape1_def zero_vector_length create_new_index_def
      metadata_entry_def dict_get_def py_int_def py_str_def key_lits add_extra_def reserved_keys_def Let_def)

text \<open>
  The other fields of an appended entry are scalar: the source file is a string, the two
  counters are integers, and every extra value is scalar or was replaced by its string.
\<close>

lemma update_values: "snd ` set (AList.update k v al) \<subseteq> insert v (snd ` set al)"
  by (induction al) auto

lemma add_extra_scalar:
  assumes "list_all (\<lambda>(k, v). is_scalar v) entry"
  shows "list_all (\<lambda>(k, v). is_scalar v) (add_extra L item entry)"
proof -
  have *: "list_all (\<lambda>(k, v). is_scalar v) (AList.update k v entry)" if "is_scalar v" for k v
    using update_values[of k v entry] assms that by (fastforce simp: list_all_iff)
  obtain key val where i: "item = (key, val)" by (cases item)
  show ?thesis using assms * by (cases val) (simp_all add: add_extra_def i)
qed

lemma fold_add_extra_scalar:
  "list_all (\<lambda>(k, v). is_scalar v) entry \<Longrightarrow>
     list_all (\<lambda>(k, v). is_scalar v) (fold (add_extra L) chunk entry)"
  by (induction chunk arbitrary: entry) (simp_all add: add_extra_scalar)

lemma metadata_entry_fields:
  assumes "metadata_entry L chunk = Inr entry"
  shows "m_text entry = dict_get chunk (py ''text'') (PStr []) \<and>
         list_all (\<lambda>(k, v). is_scalar v) (m_extra entry)"
  using assms fold_add_extra_scalar[of "[]" L chunk]
  by (auto simp: metadata_entry_def Let_def split: sum.splits)

lemma length_faiss_search: "length (faiss_search vs q k) = min k (length vs)"
  by (simp add: faiss_search_def)


lemma faiss_search_valid: "(d, i) \<in> set (faiss_search vs q k) \<Longrightarrow> i < length vs"
proof -
  assume "(d, i) \<in> set (faiss_search vs q k)"
  then have "(d, i) \<in> set (sort_key fst (map (\<lambda>i. (l2_distance q (vs ! i), i)) [0 ..< length vs]))"
    unfolding faiss_search_def by (rule in_set_takeD)
  then show ?thesis by auto
qed

lemma format_results_valid:
  "\<forall>(d, i)\<in>set rs. i < length entries \<Longrightarrow>
     format_results entries rs = map (\<lambda>(d, i). chunk_hit (entries ! i) i d) rs"
  by (induction rs) auto


lemma search_similar_positive:
  assumes wf: "length (vs_metadata s) = length (vs_index s)" and dim: "length q = embedding_dim"
    and ne: "vs_index s \<noteq> []" and k: "1 \<le> k"
  shows "search_similar dk s q (Some k) =
           Inr (map (\<lambda>(d, i). chunk_hit (vs_metadata s ! i) i d)
                  (faiss_search (vs_index s) q (nat (min k (int (length (vs_index s)))))))"
proof -
  have "\<forall>(d, i)\<in>set (faiss_search (vs_index s) q (nat (min k (int (length (vs_index s)))))). i < length (vs_metadata s)"
    using faiss_search_valid wf by fastforce
  from format_results_valid[OF this] show ?thesis
    using dim ne k by (simp add: search_similar_def Let_def min_def)
qed



section \<open>Properties of the RAG service\<close>

text \<open>
  The loop that collects the sources computes the specification's citation list.
\<close>

lemma first_seen_set: "set (first_seen xs) = set xs \<and> distinct (first_seen xs)"
proof (induction xs rule: first_seen.induct)
  case 1
  then show ?case by simp
next
  case (2 x xs)
  then show ?case by auto
qed

lemma fold_add_context_sources:
  "snd (fold (add_context L) hits (parts, srcs)) =
     srcs @ first_seen (filter (\<lambda>x. x \<notin> set srcs) (map (hm_source_file \<circ> h_metadata) hits))"
proof (induction hits arbitrary: parts srcs)
  case Nil
  then show ?case by simp
next
  case (Cons h hits)
  let ?x = "hm_source_file (h_metadata h)"
  show ?case
  proof (cases "?x \<in> set srcs")
    case True
    then show ?thesis using Cons.IH by (simp add: add_context_def Let_def)
  next
    case False
    have f: "filter (\<lambda>y. y \<notin> set (srcs @ [?x])) (map (hm_source_file \<circ> h_metadata) hits)
           = filter (\<lambda>y. y \<noteq> ?x) (filter (\<lambda>y. y \<notin> set srcs) (map (hm_source_file \<circ> h_metadata) hits))"
      by (auto intro: filter_cong)
    have "snd (fold (add_context L) (h # hits) (parts, srcs)) =
          snd (fold (add_context L) hits
                 (parts @ [py ''[From '' @ ?x @ py '']\<newline>'' @ py_str L (h_text h)], srcs @ [?x]))"
      using False by (simp add: add_context_def Let_def)
    also have "\<dots> = (srcs @ [?x]) @
        first_seen (filter (\<lambda>y. y \<notin> set (srcs @ [?x])) (map (hm_source_file \<circ> h_metadata) hits))"
      by (rule Cons.IH)
    also have "\<dots> = srcs @
        first_seen (filter (\<lambda>y. y \<notin> set srcs) (map (hm_source_file \<circ> h_metadata) (h # hits)))"
      using False by (simp only: f) simp
    finally show ?thesis .
  qed
qed

lemma collect_context_sources:
  "snd (collect_context L hits) = first_seen (map (hm_source_file \<circ> h_metadata) hits)"
  by (simp add: collect_context_def fold_add_context_sources)

lemma collect_context_parts:
  "fst (fold (add_context L) hits (parts, srcs)) =
     parts @ map (\<lambda>h. py ''[From '' @ hm_source_file (h_metadata h) @ py '']\<newline>'' @ py_str L (h_text h)) hits"
  by (induction hits arbitrary: parts srcs) (auto simp: add_context_def Let_def)

lemma query_on_nonempty:
  "vs_index s \<noteq> [] \<Longrightarrow> query E L cfg s question = Some (query_answer E L cfg s question, s)"
  by (simp add: query_def get_collection_count_def)

lemma query_answer_fields:
  assumes "generate_embedding E question = Inr v"
    and "search_similar (TOP_K_CHUNKS cfg) s v None = Inr hits"
  shows "\<exists>r. query_answer E L cfg s question = Inr r \<and> q_has_records r = (hits \<noteq> []) \<and>
             q_sources r = first_seen (map (hm_source_file \<circ> h_metadata) hits) \<and>
             q_recommendations r = []"
proof -
  obtain parts srcs where c: "collect_context L hits = (parts, srcs)" by (cases "collect_context L hits")
  have s: "srcs = first_seen (map (hm_source_file \<circ> h_metadata) hits)"
    using collect_context_sources[of L hits] c by simp
  show ?thesis
  proof (cases "hits = []")
    case True
    then show ?thesis using assms by (auto simp: query_answer_def Let_def split: sum.splits)
  next
    case False
    then show ?thesis using assms c s by (auto simp: query_answer_def Let_def split: sum.splits)
  qed
qed

lemma search_similar_None:
  "search_similar dk s q None = search_similar dk s q (Some dk)"
  by (simp add: search_similar_def)

lemma sample_search:
  "search_similar 3 sample_store zero_vector None =
     Inr [chunk_hit sample_entry 0 (l2_distance zero_vector zero_vector)]"
  by (simp add: search_similar_def sample_store_def zero_vector_length faiss_search_def)

lemma answering_embedding:
  "strip question \<noteq> [] \<Longrightarrow> generate_embedding (fixed_env (Inr v) r) question = Inr v"
  by (auto simp: generate_embedding_def fixed_env_def strip_def lstrip_def rstrip_def)

lemma questions_not_blank:
  "strip blood_pressure_question \<noteq> []" "strip unrelated_question \<noteq> []"
  by (simp_all add: blood_pressure_question_def unrelated_question_def py_def strip_def lstrip_def rstrip_def isspace_def)

text \<open>
  C4. On a non-empty index \<open>query\<close> returns, without touching the store. If embedding
  the question or searching raises, that exception is the outcome; otherwise the outcome
  is a result whose \<open>has_records\<close> flag says that retrieval returned at least one chunk,
  whose sources are the retrieved chunks' source files with duplicates removed in
  first-seen order, and whose recommendations are empty.
\<close>

theorem query_result_fields:
  assumes "vs_index s \<noteq> []"
  shows "\<exists>out. query E L cfg s question = Some (out, s) \<and>
     (case generate_embedding E question of
        Inl e \<Rightarrow> out = Inl e
      | Inr v \<Rightarrow>
          (case search_similar (TOP_K_CHUNKS cfg) s v None of
             Inl e \<Rightarrow> out = Inl e
           | Inr hits \<Rightarrow>
               (\<exists>r. out = Inr r \<and> q_has_records r = (hits \<noteq> []) \<and>
                    q_sources r = first_seen (map (hm_source_file \<circ> h_metadata) hits) \<and>
                    q_recommendations r = [])))"
proof -
  have q: "query E L cfg s question = Some (query_answer E L cfg s question, s)"
    using assms by (rule query_on_nonempty)
  show ?thesis
  proof (cases "generate_embedding E question")
    case (Inl e)
    then show ?thesis using q by (simp add: query_answer_def)
  next
    case (Inr v)
    note v = this
    show ?thesis
    proof (cases "search_similar (TOP_K_CHUNKS cfg) s v None")
      case (Inl e)
      then show ?thesis using q v by (simp add: query_answer_def)
    next
      case (Inr hits)
      from query_answer_fields[OF v Inr, of L] show ?thesis using q v Inr by auto
    qed
  qed
qed

text \<open>
  C4: on the sample store the blood-pressure question is grounded and cites the one file.
\<close>

theorem query_result_fields_witness:
  "vs_index sample_store \<noteq> [] \<and>
   (\<exists>r. query answering_env ascii_lib default_config sample_store blood_pressure_question
           = Some (Inr r, sample_store) \<and>
        q_has_records r \<and> q_sources r = [py ''checkup_2024-01-10.txt''] \<and> q_recommendations r = [])"
proof -
  have h: "vs_index sample_store \<noteq> []" by (simp add: sample_store_def)
  have e: "generate_embedding answering_env blood_pressure_question = Inr zero_vector"
    unfolding answering_env_def by (rule answering_embedding) (rule questions_not_blank)
  have k: "TOP_K_CHUNKS default_config = 3" by (simp add: default_config_def)
  show ?thesis
    using h query_result_fields[OF h, of answering_env ascii_lib default_config blood_pressure_question]
    by (auto simp: e k sample_search chunk_hit_def sample_entry_def)
qed

lemma search_similar_hits_nonempty:
  assumes ne: "vs_index s \<noteq> []" and wf: "length (vs_metadata s) = length (vs_index s)"
    and k: "1 \<le> dk" and r: "search_similar dk s v None = Inr hits"
  shows "hits \<noteq> []"
proof -
  have dim: "length v = embedding_dim"
    using r ne by (auto simp: search_similar_def Let_def split: if_splits)
  have "search_similar dk s v (Some dk) = Inr hits" using r by (simp add: search_similar_None)
  with search_similar_positive[OF wf dim ne k, of dk]
  have "length hits = length (faiss_search (vs_index s) v (nat (min dk (int (length (vs_index s))))))"
    by auto
  also have "\<dots> = min (nat (min dk (int (length (vs_index s))))) (length (vs_index s))"
    by (rule length_faiss_search)
  also have "\<dots> > 0" using ne k by (cases "vs_index s") auto
  finally show ?thesis by auto
qed

lemma query_answer_Inr:
  assumes "query_answer E L cfg s question = Inr r"
  shows "\<exists>v hits. generate_embedding E question = Inr v \<and>
                  search_similar (TOP_K_CHUNKS cfg) s v None = Inr hits"
  using assms by (auto simp: query_answer_def split: sum.splits)

lemma query_grounded_on_nonempty:
  assumes ne: "vs_index s \<noteq> []" and wf: "length (vs_metadata s) = length (vs_index s)"
    and k: "1 \<le> TOP_K_CHUNKS cfg" and q: "query E L cfg s question = Some (Inr r, s')"
  shows "q_has_records r"
proof -
  have a: "query_answer E L cfg s question = Inr r"
    using q unfolding query_on_nonempty[OF ne] by auto
  from query_answer_Inr[OF a] obtain v hits where v: "generate_embedding E question = Inr v"
    and h: "search_similar (TOP_K_CHUNKS cfg) s v None = Inr hits" by blast
  have "hits \<noteq> []" using search_similar_hits_nonempty[OF ne wf k h] .
  with query_answer_fields[OF v h, of L] a show ?thesis by auto
qed

lemma status_lits: "py ''no_documents'' \<noteq> py ''success''" "py ''no_chunks'' \<noteq> py ''success''"
  by (simp_all add: py_def)

lemma query_on_empty_corpus:
  assumes "vs_index s = []" and "records_with_metadata E = []"
  shows "query E L cfg s question = Some (Inr no_records_result, s)"
  using assms by (simp add: query_def get_collection_count_def ingest_documents_def status_lits)

lemma no_records_result_fields:
  "\<not> q_has_records no_records_result" "q_answer no_records_result \<noteq> []"
  by (simp_all add: no_records_result_def py_def)

text \<open>
  C9, amended. The flag follows retrieval, not content. On an empty index with no
  documents to ingest, \<open>query\<close> returns the fixed non-empty message with
  \<open>has_records = False\<close>. On an index that holds entries (as many metadata records as
  vectors, \<open>TOP_K_CHUNKS \<ge> 1\<close>) every result \<open>query\<close> returns has
  \<open>has_records = True\<close>, whatever the question.
\<close>

theorem query_grounded_iff_retrieved:
  "(vs_index s = [] \<and> records_with_metadata E = [] \<longrightarrow>
      query E L cfg s question = Some (Inr no_records_result, s) \<and>
      \<not> q_has_records no_records_result \<and> q_answer no_records_result \<noteq> []) \<and>
   (vs_index s \<noteq> [] \<and> length (vs_metadata s) = length (vs_index s) \<and> 1 \<le> TOP_K_CHUNKS cfg \<and>
      query E L cfg s question = Some (Inr r, s') \<longrightarrow> q_has_records r)"
  using query_on_empty_corpus no_records_result_fields query_grounded_on_nonempty by blast

lemma sample_query_answer:
  "query_answer answering_env ascii_lib default_config sample_store unrelated_question =
     Inr \<lparr>q_answer = py ''General answer.'', q_recommendations = [],
          q_sources = [py ''checkup_2024-01-10.txt''], q_needs_followup = False,
          q_has_records = True\<rparr>"
proof -
  have e: "generate_embedding answering_env unrelated_question = Inr zero_vector"
    unfolding answering_env_def by (rule answering_embedding) (rule questions_not_blank)
  have k: "TOP_K_CHUNKS default_config = 3" by (simp add: default_config_def)
  have g: "call_gemini_api answering_env = (\<lambda>p s. Inr (py ''General answer.''))"
    by (simp add: answering_env_def fixed_env_def)
  have st: "strip (py ''General answer.'') = py ''General answer.''"
    by (simp add: py_def strip_def lstrip_def rstrip_def isspace_def)
  have nf: "\<not> list_ex (\<lambda>phrase. contains phrase (lower ascii_lib (py ''General answer.''))) followup_phrases"
    by (simp add: followup_phrases_def contains_def occurs_at_def lower_def ascii_lib_def py_def upt_rec)
  show ?thesis
    using nf
    by (simp add: query_answer_def e k sample_search g st collect_context_def add_context_def
        chunk_hit_def sample_entry_def Let_def)
qed

text \<open>
  C9, as stated, fails: against a corpus that holds only a blood-pressure record, a
  question about the capital of France is answered with \<open>has_records = True\<close> and the
  record's file as source. Retrieval returns the nearest chunks whatever their distance.
\<close>

theorem query_grounded_counterexample:
  "query answering_env ascii_lib default_config sample_store unrelated_question =
     Some (Inr \<lparr>q_answer = py ''General answer.'', q_recommendations = [],
                q_sources = [py ''checkup_2024-01-10.txt''], q_needs_followup = False,
                q_has_records = True\<rparr>, sample_store)"
proof -
  have "vs_index sample_store \<noteq> []" by (simp add: sample_store_def)
  from query_on_nonempty[OF this] show ?thesis by (simp add: sample_query_answer)
qed

text \<open>
  C9, amended: both cases occur, on the fresh store and on the sample store.
\<close>

theorem query_grounded_iff_retrieved_witness:
  "vs_index create_new_index = [] \<and> records_with_metadata answering_env = [] \<and>
   query answering_env ascii_lib default_config create_new_index unrelated_question
     = Some (Inr no_records_result, create_new_index) \<and>
   \<not> q_has_records no_records_result \<and> q_answer no_records_result \<noteq> [] \<and>
   vs_index sample_store \<noteq> [] \<and> length (vs_metadata sample_store) = length (vs_index sample_store) \<and>
   1 \<le> TOP_K_CHUNKS default_config \<and>
   q_has_records (projr (query_answer answering_env ascii_lib default_config sample_store unrelated_question))"
proof -
  have a: "vs_index create_new_index = []" "records_with_metadata answering_env = []"
    by (simp_all add: create_new_index_def answering_env_def fixed_env_def)
  have b: "vs_index sample_store \<noteq> []" "length (vs_metadata sample_store) = length (vs_index sample_store)"
    "1 \<le> TOP_K_CHUNKS default_config"
    by (simp_all add: sample_store_def default_config_def)
  have q: "query answering_env ascii_lib default_config sample_store unrelated_question =
      Some (Inr (projr (query_answer answering_env ascii_lib default_config sample_store unrelated_question)),
            sample_store)"
    using query_on_nonempty[OF b(1)] by (simp add: sample_query_answer)
  show ?thesis
    using a b q
      query_grounded_iff_retrieved[of create_new_index answering_env ascii_lib default_config unrelated_question]
      query_grounded_iff_retrieved[of sample_store answering_env ascii_lib default_config unrelated_question
        "projr (query_answer answering_env ascii_lib default_config sample_store unrelated_question)" sample_store]
    by blast
qed

lemma generate_embedding_nonblank:
  "strip question \<noteq> [] \<Longrightarrow>
     generate_embedding E question =
       (case model_encode E question of Inl m \<Rightarrow> Inl (EmbedderError m) | Inr v \<Rightarrow> Inr v)"
  by (auto simp: generate_embedding_def strip_def lstrip_def rstrip_def)







text \<open>
  The parsing loop of \<open>get_recommendations\<close> computes the specification's list. A line
  of two characters passes the specification's test for a numbered item and not the
  code's, but its stripped text is then too short to be kept.
\<close>

lemma length_strip_le: "length (strip s) \<le> length s"
proof -
  have "length (strip s) \<le> length (dropWhile isspace s)"
    unfolding strip_def rstrip_def lstrip_def
    by (metis length_dropWhile_le length_rev)
  also have "\<dots> \<le> length s" by (rule length_dropWhile_le)
  finally show ?thesis .
qed

lemma length_strip_marker_le: "length (strip_marker line) \<le> length line"
  unfolding strip_marker_def
  by (rule order_trans[OF length_strip_le length_dropWhile_le])

lemma parse_line_cond:
  "(line \<noteq> [] \<and>
     (startswith [45] line \<or> startswith [8226] line \<or> startswith [42] line \<or>
      (length line > 2 \<and> isdigit L (line ! 0) \<and> line ! 1 \<in> set [46, 41])) \<and>
     strip_marker line \<noteq> [] \<and> \<not> contains (py ''disclaimer'') (lower L (strip_marker line)) \<and>
     length (strip_marker line) > 10)
   \<longleftrightarrow> starts_with_marker L line \<and> acceptable L (strip_marker line)"
proof (cases line)
  case Nil
  then show ?thesis by (simp add: starts_with_marker_def)
next
  case (Cons c rest)
  note c = this
  show ?thesis
  proof (cases rest)
    case Nil
    have "length (strip_marker line) \<le> 1" using length_strip_marker_le[of line] c Nil by simp
    then show ?thesis by (auto simp: acceptable_def)
  next
    case (Cons c' rest')
    show ?thesis
    proof (cases "10 < length (strip_marker line)")
      case False
      then show ?thesis by (auto simp: acceptable_def)
    next
      case True
      then have "2 < length line" using length_strip_marker_le[of line] by linarith
      moreover have "strip_marker line \<noteq> []" using True by auto
      ultimately show ?thesis
        using True c Cons by (auto simp: acceptable_def starts_with_marker_def startswith_def)
    qed
  qed
qed

lemma parse_line_eq:
  "parse_line L line0 recs =
     (if starts_with_marker L (strip line0) \<and> acceptable L (strip_marker (strip line0))
      then recs @ [strip_marker (strip line0)] else recs)"
proof -
  have "parse_line L line0 recs =
     (if (strip line0 \<noteq> [] \<and>
         (startswith [45] (strip line0) \<or> startswith [8226] (strip line0) \<or> startswith [42] (strip line0) \<or>
          (length (strip line0) > 2 \<and> isdigit L (strip line0 ! 0) \<and> strip line0 ! 1 \<in> set [46, 41])) \<and>
         strip_marker (strip line0) \<noteq> [] \<and>
         \<not> contains (py ''disclaimer'') (lower L (strip_marker (strip line0))) \<and>
         length (strip_marker (strip line0)) > 10)
      then recs @ [strip_marker (strip line0)] else recs)"
    unfolding parse_line_def strip_marker_def Let_def by (simp only: if_splits) auto
  then show ?thesis by (simp only: parse_line_cond)
qed

lemma fold_parse_line:
  "fold (parse_line L) lines recs =
     recs @ filter (acceptable L) (map strip_marker (filter (starts_with_marker L) (map strip lines)))"
  by (induction lines arbitrary: recs) (simp_all add: parse_line_eq)

lemma parse_recommendations_listed:
  "parse_recommendations L response =
     (if listed_recommendations L response = [] then [fallback_recommendation]
      else listed_recommendations L response)"
  by (simp add: parse_recommendations_def listed_recommendations_def fold_parse_line Let_def)

lemma get_recommendations_parse:
  assumes gen: "\<And>p sys. call_gemini_api E p sys = Inr response"
    and ret: "retrieval_error E cfg s question = None"
  shows "\<exists>srcs. get_recommendations E L cfg s question cfr =
           Inr \<lparr>r_recommendations = parse_recommendations L response, r_sources = srcs\<rparr>"
  using ret
  by (auto simp: retrieval_error_def get_recommendations_def gen Let_def split: sum.splits prod.splits)

text \<open>
  C7, amended. When retrieval raises nothing and the generator answers \<open>response\<close>,
  \<open>get_recommendations\<close> returns the listed recommendations of the response: the stripped
  lines that start with \<open>-\<close>, the bullet or \<open>*\<close>, or with a digit followed by \<open>.\<close> or
  \<open>)\<close>; without their leading marker characters and surrounding whitespace; without
  those that contain \<open>disclaimer\<close> in any case or have 10 characters or fewer. If none is
  left, the result is the one fallback sentence.
\<close>

theorem get_recommendations_listed:
  assumes gen: "\<And>p sys. call_gemini_api E p sys = Inr response"
    and ret: "retrieval_error E cfg s question = None"
  shows "\<exists>srcs. get_recommendations E L cfg s question cfr =
           Inr \<lparr>r_recommendations =
                  (if listed_recommendations L response = [] then [fallback_recommendation]
                   else listed_recommendations L response),
                r_sources = srcs\<rparr>"
  using get_recommendations_parse[OF gen ret] by (simp add: parse_recommendations_listed)

lemma retrieval_on_fresh_store:
  "strip question \<noteq> [] \<Longrightarrow>
     retrieval_error (fixed_env (Inr v) r) cfg create_new_index question = None"
  by (simp add: retrieval_error_def generate_embedding_nonblank fixed_env_def search_similar_def
      create_new_index_def)

lemma get_recommendations_fresh_store:
  "strip question \<noteq> [] \<Longrightarrow>
     get_recommendations (fixed_env (Inr v) (Inr response)) L cfg create_new_index question cfr =
       Inr \<lparr>r_recommendations = parse_recommendations L response, r_sources = []\<rparr>"
  by (simp add: get_recommendations_def generate_embedding_nonblank fixed_env_def search_similar_def
      create_new_index_def collect_context_def Let_def)

lemma ten_character_lines:
  "split_on 10 ten_character_response = [ten_character_response]"
  "strip ten_character_response = ten_character_response"
  "strip_marker ten_character_response = py ''abcdefghij''"
  by (simp_all add: ten_character_response_def py_def strip_marker_def marker_chars_def
      strip_def lstrip_def rstrip_def isspace_def)

text \<open>
  C7, as stated, fails: the response \<open>- abcdefghij\<close> lists one recommendation of exactly
  10 characters; it is discarded (\<open>len(rec) > 10\<close>) and the fallback is returned.
\<close>

theorem ten_characters_discarded:
  "get_recommendations (fixed_env (Inr zero_vector) (Inr ten_character_response)) ascii_lib
      default_config create_new_index unrelated_question True =
     Inr \<lparr>r_recommendations = [fallback_recommendation], r_sources = []\<rparr> \<and>
   strip_marker (strip ten_character_response) = py ''abcdefghij'' \<and>
   length (py ''abcdefghij'') = 10"
proof -
  have "length (py ''abcdefghij'') = 10" by (simp add: py_def)
  then have "parse_recommendations ascii_lib ten_character_response = [fallback_recommendation]"
    by (simp add: parse_recommendations_def ten_character_lines parse_line_eq acceptable_def)
  then show ?thesis
    by (simp add: get_recommendations_fresh_store[OF questions_not_blank(2)] ten_character_lines)
       (simp add: py_def)
qed

lemma listing_lines:
  "map strip (split_on 10 listing_response) =
     [py ''1. Drink more water every day'', py ''- Disclaimer: this is not medical advice'',
      py ''* Walk daily'', py ''Stay positive and rest well'']"
  by (simp add: listing_response_def py_def strip_def lstrip_def rstrip_def isspace_def)

lemma listing_markers:
  "starts_with_marker ascii_lib (py ''1. Drink more water every day'')"
  "starts_with_marker ascii_lib (py ''- Disclaimer: this is not medical advice'')"
  "starts_with_marker ascii_lib (py ''* Walk daily'')"
  "\<not> starts_with_marker ascii_lib (py ''Stay positive and rest well'')"
  by (simp_all add: starts_with_marker_def ascii_lib_def py_def)

lemma listing_stripped:
  "strip_marker (py ''1. Drink more water every day'') = py ''Drink more water every day''"
  "strip_marker (py ''- Disclaimer: this is not medical advice'') = py ''Disclaimer: this is not medical advice''"
  "strip_marker (py ''* Walk daily'') = py ''Walk daily''"
  by (simp_all add: strip_marker_def marker_chars_def py_def strip_def lstrip_def rstrip_def isspace_def)

lemma listing_acceptable:
  "acceptable ascii_lib (py ''Drink more water every day'')"
  "\<not> acceptable ascii_lib (py ''Disclaimer: this is not medical advice'')"
  "\<not> acceptable ascii_lib (py ''Walk daily'')"
  by (simp_all add: acceptable_def contains_def occurs_at_def lower_def ascii_lib_def py_def upt_rec)

lemma listing_listed:
  "listed_recommendations ascii_lib listing_response = [py ''Drink more water every day'']"
  by (simp add: listed_recommendations_def listing_lines listing_markers listing_stripped listing_acceptable)

text \<open>
  C7, amended: of the four lines of the sample response only the first is kept.
\<close>

theorem get_recommendations_listed_witness:
  "(\<forall>p sys. call_gemini_api (fixed_env (Inr zero_vector) (Inr listing_response)) p sys = Inr listing_response) \<and>
   retrieval_error (fixed_env (Inr zero_vector) (Inr listing_response)) default_config create_new_index
     unrelated_question = None \<and>
   (\<exists>srcs. get_recommendations (fixed_env (Inr zero_vector) (Inr listing_response)) ascii_lib
              default_config create_new_index unrelated_question True =
            Inr \<lparr>r_recommendations = [py ''Drink more water every day''], r_sources = srcs\<rparr>)"
proof -
  have gen: "\<And>p sys. call_gemini_api (fixed_env (Inr zero_vector) (Inr listing_response)) p sys
      = Inr listing_response"
    by (simp add: fixed_env_def)
  have ret: "retrieval_error (fixed_env (Inr zero_vector) (Inr listing_response)) default_config
      create_new_index unrelated_question = None"
    by (rule retrieval_on_fresh_store) (rule questions_not_blank)
  show ?thesis
    using gen ret
      get_recommendations_listed[OF gen ret, where L = ascii_lib and cfr = True]
    by (simp add: listing_listed)
qed

end
